theory Spec2Isabelle
  imports Main
begin

section \<open>Python primitives used by the viewer\<close>

text \<open>
  Lines of text are \<^typ>\<open>string\<close>s; all row, column and size values are Python
  integers, modelled as \<^typ>\<open>int\<close>.  The characters are taken to be ASCII, so
  the white space of \<^verbatim>\<open>str.strip\<close> is the ASCII white space of
  \<^verbatim>\<open>str.isspace\<close>: code points 9 to 13, 28 to 31 and 32.
\<close>

datatype py_error = IndexError

text \<open>Indexing a list: an index below zero counts from the end.\<close>

definition py_index :: "'a list \<Rightarrow> int \<Rightarrow> py_error + 'a" where
  "py_index xs i =
     (if 0 \<le> i \<and> i < int (length xs) then Inr (xs ! nat i)
      else if i < 0 \<and> - int (length xs) \<le> i then Inr (xs ! nat (int (length xs) + i))
      else Inl IndexError)"

definition py_slice :: "'a list \<Rightarrow> int \<Rightarrow> int \<Rightarrow> 'a list" where
  "py_slice s a b =
     (let n = int (length s);
          lo = (if a < 0 then max (a + n) 0 else min a n);
          hi = (if b < 0 then max (b + n) 0 else min b n)
      in take (nat (hi - lo)) (drop (nat lo) s))"

definition isspace :: "char \<Rightarrow> bool" where
  "isspace c =
     (let n = (of_char c :: nat)
      in (9 \<le> n \<and> n \<le> 13) \<or> (28 \<le> n \<and> n \<le> 31) \<or> n = 32)"

definition lstrip :: "string \<Rightarrow> string" where
  "lstrip s = dropWhile isspace s"

definition rstrip :: "string \<Rightarrow> string" where
  "rstrip s = rev (dropWhile isspace (rev s))"

definition strip :: "string \<Rightarrow> string" where
  "strip s = rstrip (lstrip s)"

section \<open>The terminal surface\<close>

text \<open>
  A curses attribute is a colour pair number, possibly with \<^verbatim>\<open>A_BOLD\<close>.
  The effect of a frame on the screen is the list of its \<^verbatim>\<open>insstr\<close> calls, in
  the order the code makes them, after \<^verbatim>\<open>erase\<close>.  The terminal itself (clipping
  at the right edge, the errors of curses for a position outside the window) is outside the
  model.
\<close>

datatype attr = Attr (pair: nat) (bold: bool)

datatype drawop = Insstr (wrow: int) (wcol: int) (wtext: string) (wattr: attr)

definition standardcolor :: attr where "standardcolor = Attr 0 False"
definition matchcolor :: attr where "matchcolor = Attr 1 True"
definition infocolor :: attr where "infocolor = Attr 2 True"

text \<open>The key codes of \<^verbatim>\<open>curses\<close> (the values of ncurses).\<close>

definition KEY_DOWN :: int where "KEY_DOWN = 258"
definition KEY_UP :: int where "KEY_UP = 259"
definition KEY_LEFT :: int where "KEY_LEFT = 260"
definition KEY_RIGHT :: int where "KEY_RIGHT = 261"
definition KEY_HOME :: int where "KEY_HOME = 262"
definition KEY_NPAGE :: int where "KEY_NPAGE = 338"
definition KEY_PPAGE :: int where "KEY_PPAGE = 339"
definition KEY_ENTER :: int where "KEY_ENTER = 343"
definition KEY_END :: int where "KEY_END = 360"

section \<open>drawsplitpane (cursemenu.py)\<close>

text \<open>
  The layout of the two panes: the pane labels drawn on row 0, the first column
  \<open>rstart\<close> of the right pane and the stop column \<open>lstop\<close> of the left slice.
\<close>

definition pane_layout :: "int \<Rightarrow> int \<Rightarrow> int \<Rightarrow> int \<Rightarrow> drawop list \<times> int \<times> int" where
  "pane_layout width lcol paneshmt halfgap =
     (let middle = width div 2 + paneshmt in
      if paneshmt \<noteq> 0 then
        (if middle \<ge> width - halfgap then
           ([Insstr 0 1 ''left'' infocolor], width, width + lcol)
         else if middle \<le> halfgap then
           ([Insstr 0 (width - 6) ''right'' infocolor], 0, lcol)
         else
           ([Insstr 0 1 ''left'' infocolor, Insstr 0 (width - 6) ''right'' infocolor],
            middle + halfgap, middle - halfgap + lcol))
      else
        ([Insstr 0 1 ''left'' infocolor, Insstr 0 (width - 11) ''right'' infocolor],
         middle + halfgap, middle - halfgap + lcol))"

definition lines_match :: "string list \<Rightarrow> int \<Rightarrow> string list \<Rightarrow> int \<Rightarrow> int \<Rightarrow> bool" where
  "lines_match lhs lrow rhs rrow i =
     (i + lrow \<ge> 0 \<and> i + rrow \<ge> 0 \<and>
      i + lrow < int (length lhs) \<and> i + rrow < int (length rhs) \<and>
      strip (lhs ! nat (lrow + i)) = strip (rhs ! nat (rrow + i)))"

definition draw_lhs :: "int \<Rightarrow> string list \<Rightarrow> int \<times> int \<Rightarrow> int \<Rightarrow> attr \<Rightarrow> drawop list" where
  "draw_lhs i lhs lpos lstop color =
     (if lstop \<noteq> snd lpos then
        (if i + fst lpos \<ge> 0 \<and> i + fst lpos < int (length lhs) then
           [Insstr i 0 (py_slice (lhs ! nat (fst lpos + i)) (snd lpos) lstop) color]
         else if i + fst lpos = int (length lhs) then
           [Insstr i 1 ''END'' infocolor]
         else [])
      else [])"

definition draw_rhs ::
  "int \<Rightarrow> int \<Rightarrow> string list \<Rightarrow> int \<times> int \<Rightarrow> int \<Rightarrow> int \<Rightarrow> attr \<Rightarrow> drawop list" where
  "draw_rhs i width rhs rpos rstart rstop color =
     (if rstop \<noteq> snd rpos then
        (if i + fst rpos \<ge> 0 \<and> i + fst rpos < int (length rhs) then
           [Insstr i rstart (py_slice (rhs ! nat (fst rpos + i)) (snd rpos) rstop) color]
         else if i + fst rpos = int (length rhs) then
           [Insstr i (width - 4) ''END'' infocolor]
         else [])
      else [])"

text \<open>
  The loop over the screen rows.  The variable \<open>color\<close> lives across the iterations:
  with highlighting it is set anew in every row, without it it keeps its value.
\<close>

fun draw_rows ::
  "bool \<Rightarrow> int \<Rightarrow> string list \<Rightarrow> int \<times> int \<Rightarrow> int \<Rightarrow> string list \<Rightarrow> int \<times> int \<Rightarrow> int \<Rightarrow> int
     \<Rightarrow> attr \<Rightarrow> int list \<Rightarrow> drawop list" where
  "draw_rows highlight width lhs lpos lstop rhs rpos rstart rstop color [] = []"
| "draw_rows highlight width lhs lpos lstop rhs rpos rstart rstop color (i # rows) =
     (let color' =
            (if highlight then
               (if lines_match lhs (fst lpos) rhs (fst rpos) i then matchcolor
                else standardcolor)
             else color)
      in draw_lhs i lhs lpos lstop color' @
         draw_rhs i width rhs rpos rstart rstop color' @
         draw_rows highlight width lhs lpos lstop rhs rpos rstart rstop color' rows)"

text \<open>
  \<open>drawsplitpane\<close> takes the size the screen reports (\<^verbatim>\<open>scr.getmaxyx()\<close>) as its
  first two arguments; it yields the writes of the frame and returns that size.
\<close>

definition drawsplitpane ::
  "int \<Rightarrow> int \<Rightarrow> string list \<Rightarrow> int \<times> int \<Rightarrow> string list \<Rightarrow> int \<times> int \<Rightarrow> bool \<Rightarrow> int \<Rightarrow> int
     \<Rightarrow> drawop list \<times> (int \<times> int)" where
  "drawsplitpane height width lhs lpos rhs rpos highlight paneshmt halfgap =
     (case pane_layout width (snd lpos) paneshmt halfgap of
        (labels, rstart, lstop) \<Rightarrow>
          (let rstop = width - rstart + snd rpos in
           (labels @
            draw_rows highlight width lhs lpos lstop rhs rpos rstart rstop standardcolor
              [1..height - 1],
            (height, width))))"







section \<open>showdiff (diffwin.py)\<close>

text \<open>
  The state of a diff session: the variables of \<^verbatim>\<open>showdiff\<close> that live across
  the iterations of its loop.  \<open>lpos\<close> and \<open>rpos\<close> are the (row, column) offsets of the
  two panes.
\<close>

record diff_state =
  lpos :: "int \<times> int"
  rpos :: "int \<times> int"
  lastheight :: int
  lastwidth :: int
  singlescroll :: bool
  leftscroll :: bool
  highlight :: bool
  paneshmt :: int

text \<open>The session entry: blank lines are dropped, the others lose their trailing white
  space and have each tab replaced by two spaces.\<close>

definition expand_tabs :: "string \<Rightarrow> string" where
  "expand_tabs s = concat (map (\<lambda>c. if c = CHR 0x09 then ''  '' else [c]) s)"

definition preprocess :: "string list \<Rightarrow> string list" where
  "preprocess buf =
     map (\<lambda>line. expand_tabs (rstrip line)) (filter (\<lambda>line. strip line \<noteq> []) buf)"

definition maxlen :: "string list \<Rightarrow> int" where
  "maxlen buf = fold (\<lambda>row w. max (int (length row)) w) buf 0"

definition scroll :: "diff_state \<Rightarrow> string \<Rightarrow> bool" where
  "scroll st x =
     (if x = ''left'' then \<not> singlescroll st \<or> leftscroll st
      else \<not> singlescroll st \<or> \<not> leftscroll st)"

definition key_home :: "diff_state \<Rightarrow> diff_state" where
  "key_home st =
     (let st1 = (if scroll st ''left'' then st\<lparr>lpos := (- 1, snd (lpos st))\<rparr> else st)
      in if scroll st1 ''right'' then st1\<lparr>rpos := (- 1, snd (rpos st1))\<rparr> else st1)"

definition key_end :: "int \<Rightarrow> int \<Rightarrow> diff_state \<Rightarrow> diff_state" where
  "key_end nl nr st =
     (let st1 = (if scroll st ''left'' \<and> lastheight st < nl
                 then st\<lparr>lpos := (nl - lastheight st + 1, snd (lpos st))\<rparr> else st)
      in if scroll st1 ''right'' \<and> lastheight st1 < nr
         then st1\<lparr>rpos := (nr - lastheight st1 + 1, snd (rpos st1))\<rparr> else st1)"

definition page_up_row :: "int \<Rightarrow> int \<Rightarrow> int" where
  "page_up_row h row = (let r = row - (h - 4) in if r < 0 then - 1 else r)"

definition key_ppage :: "diff_state \<Rightarrow> diff_state" where
  "key_ppage st =
     (let st1 = (if scroll st ''left''
                 then st\<lparr>lpos := (page_up_row (lastheight st) (fst (lpos st)), snd (lpos st))\<rparr>
                 else st)
      in if scroll st1 ''right''
         then st1\<lparr>rpos := (page_up_row (lastheight st1) (fst (rpos st1)), snd (rpos st1))\<rparr>
         else st1)"

definition page_down_row :: "int \<Rightarrow> int \<Rightarrow> int \<Rightarrow> int" where
  "page_down_row h n row =
     (let r = row + (h - 4) in if r > n - h then n - h + 1 else r)"

definition key_npage :: "int \<Rightarrow> int \<Rightarrow> diff_state \<Rightarrow> diff_state" where
  "key_npage nl nr st =
     (let st1 = (if scroll st ''left'' \<and> lastheight st < nl
                 then st\<lparr>lpos := (page_down_row (lastheight st) nl (fst (lpos st)), snd (lpos st))\<rparr>
                 else st)
      in if scroll st1 ''right'' \<and> lastheight st1 < nr
         then st1\<lparr>rpos := (page_down_row (lastheight st1) nr (fst (rpos st1)), snd (rpos st1))\<rparr>
         else st1)"

definition key_up :: "diff_state \<Rightarrow> diff_state" where
  "key_up st =
     (let st1 = (if scroll st ''left'' then st\<lparr>lpos := (fst (lpos st) - 1, snd (lpos st))\<rparr> else st)
      in if scroll st1 ''right'' then st1\<lparr>rpos := (fst (rpos st1) - 1, snd (rpos st1))\<rparr> else st1)"

definition key_down :: "diff_state \<Rightarrow> diff_state" where
  "key_down st =
     (let st1 = (if scroll st ''left'' then st\<lparr>lpos := (fst (lpos st) + 1, snd (lpos st))\<rparr> else st)
      in if scroll st1 ''right'' then st1\<lparr>rpos := (fst (rpos st1) + 1, snd (rpos st1))\<rparr> else st1)"

definition key_left :: "diff_state \<Rightarrow> diff_state" where
  "key_left st =
     (let st1 = (if scroll st ''left'' \<and> snd (lpos st) > 0
                 then st\<lparr>lpos := (fst (lpos st), snd (lpos st) - 1)\<rparr> else st)
      in if scroll st1 ''right'' \<and> snd (rpos st1) > 0
         then st1\<lparr>rpos := (fst (rpos st1), snd (rpos st1) - 1)\<rparr> else st1)"

definition key_right :: "int \<Rightarrow> int \<Rightarrow> int \<Rightarrow> diff_state \<Rightarrow> diff_state" where
  "key_right lwidth rwidth middle st =
     (let st1 = (if scroll st ''left'' \<and> middle > 2
                 then (if lwidth - snd (lpos st) > middle - 2
                       then st\<lparr>lpos := (fst (lpos st), snd (lpos st) + 1)\<rparr> else st)
                 else st)
      in if scroll st1 ''right'' \<and> middle < lastwidth st1
         then (if rwidth - snd (rpos st1) > lastwidth st1 - middle - 2
               then st1\<lparr>rpos := (fst (rpos st1), snd (rpos st1) + 1)\<rparr> else st1)
         else st1)"

text \<open>
  The body of the loop up to the repaint: the effect of key \<open>ch\<close> on the state, and
  the flag \<open>repaint\<close>.
\<close>

definition showdiff_key :: "string list \<Rightarrow> string list \<Rightarrow> int \<Rightarrow> diff_state \<Rightarrow> diff_state \<times> bool" where
  "showdiff_key lhs rhs ch st =
     (let middle = lastwidth st div 2 + paneshmt st;
          nl = int (length lhs); nr = int (length rhs)
      in
      if ch = 32 then (st\<lparr>singlescroll := \<not> singlescroll st\<rparr>, True)
      else if ch = 9 then (st\<lparr>leftscroll := \<not> leftscroll st\<rparr>, True)
      else if ch \<in> set [68, 72, 100, 104] then (st\<lparr>highlight := \<not> highlight st\<rparr>, True)
      else if ch = 43 then
        ((if middle < lastwidth st - 2 then st\<lparr>paneshmt := paneshmt st + 1\<rparr> else st), True)
      else if ch = 45 then
        ((if middle > 2 then st\<lparr>paneshmt := paneshmt st - 1\<rparr> else st), True)
      else if ch = 61 then (st\<lparr>paneshmt := 0\<rparr>, True)
      else if ch = KEY_HOME then (key_home st, True)
      else if ch = KEY_END then (key_end nl nr st, True)
      else if ch = KEY_PPAGE then (key_ppage st, True)
      else if ch = KEY_NPAGE then (key_npage nl nr st, True)
      else if ch = KEY_UP then (key_up st, True)
      else if ch = KEY_DOWN then (key_down st, True)
      else if ch = KEY_LEFT then (key_left st, True)
      else if ch = KEY_RIGHT then (key_right (maxlen lhs) (maxlen rhs) middle st, True)
      else (st, False))"

text \<open>
  The loop of \<^verbatim>\<open>showdiff\<close>.  Each event is a key together with the size the
  terminal has when that key's repaint asks for it.  The result is the last state, the
  frames drawn, and whether the session returned (a quit key was read) or still waits
  for a key.
\<close>

fun showdiff_loop ::
  "string list \<Rightarrow> string list \<Rightarrow> diff_state \<Rightarrow> (int \<times> int \<times> int) list
     \<Rightarrow> diff_state \<times> drawop list list \<times> bool" where
  "showdiff_loop lhs rhs st [] = (st, [], False)"
| "showdiff_loop lhs rhs st ((ch, h, w) # evs) =
     (if ch \<in> set [27, 81, 113] then (st, [], True)
      else
        (case showdiff_key lhs rhs ch st of
           (st', repaint) \<Rightarrow>
             if repaint then
               (case drawsplitpane h w lhs (lpos st') rhs (rpos st') (highlight st') (paneshmt st') 2 of
                  (frame, h', w') \<Rightarrow>
                    (case showdiff_loop lhs rhs (st'\<lparr>lastheight := h', lastwidth := w'\<rparr>) evs of
                       (final, frames, returned) \<Rightarrow> (final, frame # frames, returned)))
             else showdiff_loop lhs rhs st' evs))"

text \<open>
  \<^verbatim>\<open>showdiff\<close> itself: \<open>size0\<close> is the size read before the loop, \<open>size1\<close> the
  size at the repaint of the key \<^verbatim>\<open>KEY_HOME\<close> the loop starts with.
\<close>

definition showdiff ::
  "string list \<Rightarrow> string list \<Rightarrow> int \<times> int \<Rightarrow> int \<times> int \<Rightarrow> (int \<times> int \<times> int) list
     \<Rightarrow> diff_state \<times> drawop list list \<times> bool" where
  "showdiff lhs0 rhs0 size0 size1 evs =
     showdiff_loop (preprocess lhs0) (preprocess rhs0)
       \<lparr>lpos = (0, 0), rpos = (0, 0), lastheight = fst size0, lastwidth = snd size0,
        singlescroll = False, leftscroll = True, highlight = True, paneshmt = 0\<rparr>
       ((KEY_HOME, size1) # evs)"

text \<open>The directional keys of the diff view.\<close>

definition directional :: "int \<Rightarrow> bool" where
  "directional ch =
     (ch \<in> set [KEY_HOME, KEY_END, KEY_PPAGE, KEY_NPAGE, KEY_UP, KEY_DOWN, KEY_LEFT, KEY_RIGHT])"

section \<open>showmenu (cursemenu.py)\<close>

text \<open>
  The error argument of \<^verbatim>\<open>showmenu\<close> is \<^verbatim>\<open>None\<close>, a string or a list of
  strings; \<open>truthy\<close> is Python's truth value of it.
\<close>

datatype errmsg = NoErr | ErrStr string | ErrList "string list"

fun truthy :: "errmsg \<Rightarrow> bool" where
  "truthy NoErr = False"
| "truthy (ErrStr s) = (s \<noteq> [])"
| "truthy (ErrList es) = (es \<noteq> [])"

text \<open>The variables of \<^verbatim>\<open>showmenu\<close> that change in its loop.\<close>

record menu_state =
  topline :: int
  hpos :: int
  err :: errmsg
  errorcounter :: "int option"

definition titlecolor :: attr where "titlecolor = Attr 2 True"
definition itemcolor :: attr where "itemcolor = Attr 1 False"
definition activecolor :: attr where "activecolor = Attr 1 True"
definition errorcolor :: attr where "errorcolor = Attr 3 True"

definition widen :: "string list \<Rightarrow> int \<Rightarrow> int" where
  "widen ls m = fold (\<lambda>line w. max (int (length line)) w) ls m"

definition menu_maxwidth :: "string \<Rightarrow> string list list \<Rightarrow> errmsg \<Rightarrow> string list \<Rightarrow> int" where
  "menu_maxwidth ttl bdy e chs =
     (let m1 = widen (concat bdy) (int (length ttl));
          m2 = (case e of NoErr \<Rightarrow> m1
                | ErrStr s \<Rightarrow> max (int (length s)) m1
                | ErrList es \<Rightarrow> widen es m1)
      in widen chs m2)"

definition menu_errorlen :: "errmsg \<Rightarrow> int" where
  "menu_errorlen e = (case e of ErrList es \<Rightarrow> int (length es) | _ \<Rightarrow> 1)"

fun draw_section :: "int \<Rightarrow> int \<Rightarrow> string list \<Rightarrow> drawop list \<times> int" where
  "draw_section lshift linenum [] = ([], linenum)"
| "draw_section lshift linenum (line # rest) =
     (case draw_section lshift (linenum + 1) rest of
        (ws, ln) \<Rightarrow> (Insstr (linenum + 1) (4 + lshift) line itemcolor # ws, ln))"

fun draw_body :: "int \<Rightarrow> int \<Rightarrow> string list list \<Rightarrow> drawop list \<times> int" where
  "draw_body lshift linenum [] = ([], linenum)"
| "draw_body lshift linenum (sec # rest) =
     (case draw_section lshift linenum sec of
        (ws1, ln1) \<Rightarrow>
          (case draw_body lshift (ln1 + 1) rest of
             (ws2, ln2) \<Rightarrow> (ws1 @ ws2, ln2)))"

fun draw_errlist :: "int \<Rightarrow> int \<Rightarrow> string list \<Rightarrow> drawop list \<times> int" where
  "draw_errlist lshift linenum [] = ([], linenum)"
| "draw_errlist lshift linenum (e # es) =
     (if e = [] then draw_errlist lshift linenum es
      else (case draw_errlist lshift (linenum + 1) es of
              (ws, ln) \<Rightarrow> (Insstr linenum (4 + lshift) e errorcolor # ws, ln)))"

definition draw_err :: "int \<Rightarrow> int \<Rightarrow> errmsg \<Rightarrow> drawop list \<times> int" where
  "draw_err lshift linenum e =
     (case e of
        ErrList es \<Rightarrow> (case draw_errlist lshift linenum es of (ws, ln) \<Rightarrow> (ws, ln - 1 + 2))
      | ErrStr s \<Rightarrow> ([Insstr linenum (4 + lshift) s errorcolor], linenum + 2)
      | NoErr \<Rightarrow> ([], linenum))"

text \<open>The loop over the choices: \<open>i\<close> is the index of the head of the list.\<close>

fun draw_choices :: "int \<Rightarrow> int \<Rightarrow> int \<Rightarrow> int \<Rightarrow> int \<Rightarrow> int \<Rightarrow> string list \<Rightarrow> drawop list" where
  "draw_choices height lshift tline hp linenum i [] = []"
| "draw_choices height lshift tline hp linenum i (line # rest) =
     (if linenum = height then []
      else if i \<ge> tline then
        Insstr linenum (4 + lshift) line (if i = hp then activecolor else itemcolor) #
        draw_choices height lshift tline hp (linenum + 1) (i + 1) rest
      else draw_choices height lshift tline hp linenum (i + 1) rest)"

text \<open>
  The head of the loop: once the counter of a shown error is zero the error is dropped
  and the top line moved back.
\<close>

definition expire_error :: "int \<Rightarrow> menu_state \<Rightarrow> menu_state" where
  "expire_error errorlen st =
     (if truthy (err st) \<and> errorcounter st = Some 0 then
        st\<lparr>topline := (let t = topline st - (errorlen + 1) in if t < 0 then 0 else t),
           err := NoErr\<rparr>
      else st)"

text \<open>
  The counter of a shown error, at line \<open>linenum\<close> below the error: started at 5 when
  the error is first drawn, with the top line moved down when the choices no longer fit,
  and decremented in every later frame.
\<close>

definition count_error :: "int \<Rightarrow> int \<Rightarrow> int \<Rightarrow> int \<Rightarrow> menu_state \<Rightarrow> menu_state" where
  "count_error errorlen height linenum nchoices st =
     (case errorcounter st of
        None \<Rightarrow>
          (let st1 = st\<lparr>errorcounter := Some 5\<rparr> in
           if height - linenum < nchoices then
             (let t = topline st1 + (errorlen + 1) in
              st1\<lparr>topline := (if t > hpos st1 then hpos st1 else t)\<rparr>)
           else st1)
      | Some c \<Rightarrow> st\<lparr>errorcounter := Some (c - 1)\<rparr>)"

text \<open>
  A frame: the writes and, when the cursor is shown, its row, column and visibility.
\<close>

type_synonym frame = "drawop list \<times> (int \<times> int \<times> int) option"

text \<open>
  One rendering of the menu on a screen of the given size: the frame, the line
  \<open>actualtop\<close> of the first choice and the state after the frame; or the exception of
  \<^verbatim>\<open>choices[hpos]\<close>.
\<close>

definition menu_frame ::
  "string \<Rightarrow> string list list \<Rightarrow> string list \<Rightarrow> int \<Rightarrow> int \<Rightarrow> int \<Rightarrow> int \<Rightarrow> int \<Rightarrow> menu_state
     \<Rightarrow> py_error + (frame \<times> int \<times> menu_state)" where
  "menu_frame ttl bdy chs curs maxwidth errorlen height width st0 =
     (let st1 = expire_error errorlen st0;
          lshift = (if maxwidth < width then (width - maxwidth) div 2 else 0)
      in case draw_body lshift 1 bdy of
        (bodyws, ln0) \<Rightarrow>
          (let linenum = ln0 + 1 in
           case (if truthy (err st1) then
                   (case draw_err lshift linenum (err st1) of
                      (ews, ln1) \<Rightarrow> (ews, ln1, count_error errorlen height ln1 (int (length chs)) st1))
                 else ([], linenum, st1)) of
             (errws, actualtop, st2) \<Rightarrow>
               (let ws = Insstr 0 (0 + lshift) ttl titlecolor # bodyws @ errws @
                         draw_choices height lshift (topline st2) (hpos st2) actualtop 0 chs
                in if curs \<noteq> 0 then
                     (case py_index chs (hpos st2) of
                        Inl e \<Rightarrow> Inl e
                      | Inr line \<Rightarrow>
                          (let cursorcol = 4 + lshift + int (length line) in
                           Inr ((ws, if cursorcol < width
                                     then Some (actualtop + hpos st2 - topline st2, cursorcol, curs)
                                     else None),
                                actualtop, st2)))
                   else Inr ((ws, None), actualtop, st2))))"

text \<open>
  What \<^verbatim>\<open>showmenu\<close> returns: \<^verbatim>\<open>None, None\<close> on a quit key, nothing in an info
  box, the top line and the highlighted position on enter.
\<close>

datatype menu_return = ReturnNoneNone | ReturnNothing | ReturnChoice int int

datatype menu_step = Return menu_return | Continue menu_state

definition menu_key :: "string list \<Rightarrow> bool \<Rightarrow> int \<Rightarrow> int \<Rightarrow> int \<Rightarrow> menu_state \<Rightarrow> menu_step" where
  "menu_key chs infobox height actualtop ch st =
     (let n = int (length chs) in
      if ch \<in> set [27, 81, 113] then Return ReturnNoneNone
      else if infobox then Return ReturnNothing
      else if ch = KEY_HOME then Continue (st\<lparr>hpos := 0, topline := 0\<rparr>)
      else if ch = KEY_END then
        Continue (if actualtop + n > height
                  then st\<lparr>topline := n - height + actualtop, hpos := n - 1\<rparr> else st)
      else if ch = KEY_UP then
        Continue (if hpos st > 0 then
                    (let st1 = st\<lparr>hpos := hpos st - 1\<rparr> in
                     if actualtop + hpos st1 - topline st1 < actualtop
                     then st1\<lparr>topline := topline st1 - 1\<rparr> else st1)
                  else st)
      else if ch = KEY_DOWN then
        Continue (if hpos st < n - 1 then
                    (let st1 = st\<lparr>hpos := hpos st + 1\<rparr> in
                     if actualtop + hpos st1 - topline st1 = height
                     then st1\<lparr>topline := topline st1 + 1\<rparr> else st1)
                  else st)
      else if ch = KEY_PPAGE \<and> hpos st > 0 then
        Continue (let st1 = st\<lparr>hpos := hpos st - 4\<rparr>;
                      st2 = (if hpos st1 - topline st1 < 0 then st1\<lparr>topline := hpos st1\<rparr> else st1)
                  in if hpos st2 < 0 then st2\<lparr>hpos := 0, topline := 0\<rparr> else st2)
      else if ch = KEY_NPAGE then
        Continue (let st1 = st\<lparr>hpos := hpos st + 4\<rparr>;
                      st2 = (if hpos st1 \<ge> n - 1 then st1\<lparr>hpos := n - 1\<rparr> else st1)
                  in if actualtop + hpos st2 - topline st2 \<ge> height
                     then st2\<lparr>topline := topline st2 +
                                 (actualtop + hpos st2 - topline st2 - height + 1)\<rparr>
                     else st2)
      else if ch \<in> set [KEY_ENTER, 10, 13] then Return (ReturnChoice (topline st) (hpos st))
      else Continue st)"

text \<open>One iteration of the loop: the frame that is refreshed, then the key.\<close>

definition menu_iter ::
  "string \<Rightarrow> string list list \<Rightarrow> string list \<Rightarrow> bool \<Rightarrow> int \<Rightarrow> int \<Rightarrow> int \<Rightarrow> menu_state
     \<Rightarrow> int \<times> int \<times> int \<Rightarrow> py_error + (frame \<times> menu_step)" where
  "menu_iter ttl bdy chs infobox curs maxwidth errorlen st ev =
     (case ev of
        (height, width, ch) \<Rightarrow>
          (case menu_frame ttl bdy chs curs maxwidth errorlen height width st of
             Inl e \<Rightarrow> Inl e
           | Inr (fr, actualtop, st') \<Rightarrow>
               Inr (fr, menu_key chs infobox height actualtop ch st')))"

text \<open>
  The loop of \<^verbatim>\<open>showmenu\<close>.  An event is the size of the screen in one iteration
  and the key read at its end.  The result is the list of the frames shown and how the
  call ended: an exception, a return, or still waiting for a key after the last event.
\<close>

datatype menu_outcome = Raised py_error | Returned menu_return | Waiting menu_state

fun showmenu_loop ::
  "string \<Rightarrow> string list list \<Rightarrow> string list \<Rightarrow> bool \<Rightarrow> int \<Rightarrow> int \<Rightarrow> int \<Rightarrow> menu_state
     \<Rightarrow> (int \<times> int \<times> int) list \<Rightarrow> frame list \<times> menu_outcome" where
  "showmenu_loop ttl bdy chs infobox curs maxwidth errorlen st [] = ([], Waiting st)"
| "showmenu_loop ttl bdy chs infobox curs maxwidth errorlen st (ev # evs) =
     (case menu_iter ttl bdy chs infobox curs maxwidth errorlen st ev of
        Inl e \<Rightarrow> ([], Raised e)
      | Inr (fr, Return r) \<Rightarrow> ([fr], Returned r)
      | Inr (fr, Continue st') \<Rightarrow>
          (case showmenu_loop ttl bdy chs infobox curs maxwidth errorlen st' evs of
             (frs, out) \<Rightarrow> (fr # frs, out)))"

definition showmenu ::
  "string \<Rightarrow> string list list \<Rightarrow> errmsg \<Rightarrow> string list \<Rightarrow> bool \<Rightarrow> int \<Rightarrow> int \<Rightarrow> int
     \<Rightarrow> (int \<times> int \<times> int) list \<Rightarrow> frame list \<times> menu_outcome" where
  "showmenu ttl bdy e chs infobox curs topline0 hpos0 evs =
     showmenu_loop ttl bdy chs infobox curs (menu_maxwidth ttl bdy e chs) (menu_errorlen e)
       \<lparr>topline = topline0, hpos = (if hpos0 < topline0 then topline0 else hpos0),
        err = e, errorcounter = None\<rparr>
       evs"

text \<open>Whether a frame shows a line in the error colour.\<close>

definition shows_error :: "frame \<Rightarrow> bool" where
  "shows_error fr = (filter (\<lambda>w. wattr w = errorcolor) (fst fr) \<noteq> [])"

text \<open>
  The screen line of the first choice when no error is shown: the title, a blank line,
  the lines of each body section and a blank line after each, and one more blank line.
\<close>

definition menu_top :: "string list list \<Rightarrow> int" where
  "menu_top bdy = 2 + sum_list (map (\<lambda>sec. int (length sec) + 1) bdy)"

text \<open>The ten choices of the end-to-end scenario.\<close>

definition ten_choices :: "string list" where
  "ten_choices =
     [''one'', ''two'', ''three'', ''four'', ''five'', ''six'', ''seven'', ''eight'', ''nine'',
      ''ten'']"

section \<open>Facts about the Python primitives\<close>

lemma py_slice_nonneg:
  "0 \<le> a \<Longrightarrow> a \<le> b \<Longrightarrow> py_slice s a b = take (nat (b - a)) (drop (nat a) s)"
  by (auto simp: py_slice_def Let_def min_def)


lemma isspace_simps:
  "isspace CHR '' ''" "\<not> isspace CHR ''a''" "\<not> isspace CHR ''b''" "\<not> isspace CHR ''x''"
  by (simp_all add: isspace_def)


lemmas KEY_defs = KEY_HOME_def KEY_END_def KEY_PPAGE_def KEY_NPAGE_def KEY_UP_def KEY_DOWN_def
  KEY_LEFT_def KEY_RIGHT_def KEY_ENTER_def

section \<open>The split-pane renderer, row by row\<close>









lemma snd_drawsplitpane: "snd (drawsplitpane h w lhs lp rhs rp hl shmt hg) = (h, w)"
  by (simp add: drawsplitpane_def split: prod.splits)





text \<open>
  A collapsed pane draws no end marker: here the right buffer ends on screen row 1, and
  the frame has the left pane only.
\<close>

lemma collapsed_pane_has_no_end_marker:
  "fst (drawsplitpane 3 80 [''x''] (- 1, 0) [''y''] (0, 0) False 38 2) =
     [Insstr 0 1 ''left'' infocolor,
      Insstr 1 0 ''x'' standardcolor, Insstr 2 1 ''END'' infocolor]"
  by (simp add: drawsplitpane_def pane_layout_def draw_lhs_def draw_rhs_def py_slice_def
      upto_rec1)

section \<open>The collapsed layouts\<close>





text \<open>
  On a screen of two columns the test for the right edge comes first, so a shift to the
  left collapses the right pane.
\<close>

lemma narrow_screen_collapses_right_pane:
  "fst (drawsplitpane 3 2 [''abc''] (- 1, 0) [''xyz''] (- 1, 0) False (- 1) 2) =
     [Insstr 0 1 ''left'' infocolor, Insstr 1 0 ''ab'' standardcolor, Insstr 2 1 ''END'' infocolor]"
  by (simp add: drawsplitpane_def pane_layout_def draw_lhs_def draw_rhs_def py_slice_def
      upto_rec1)

section \<open>Highlighting\<close>







section \<open>The keys of the diff session\<close>

lemmas key_defs = key_home_def key_end_def key_ppage_def key_npage_def key_up_def key_down_def
  key_left_def key_right_def

lemma showdiff_key_directional:
  "showdiff_key lhs rhs KEY_HOME st = (key_home st, True)"
  "showdiff_key lhs rhs KEY_END st = (key_end (int (length lhs)) (int (length rhs)) st, True)"
  "showdiff_key lhs rhs KEY_PPAGE st = (key_ppage st, True)"
  "showdiff_key lhs rhs KEY_NPAGE st = (key_npage (int (length lhs)) (int (length rhs)) st, True)"
  "showdiff_key lhs rhs KEY_UP st = (key_up st, True)"
  "showdiff_key lhs rhs KEY_DOWN st = (key_down st, True)"
  "showdiff_key lhs rhs KEY_LEFT st = (key_left st, True)"
  "showdiff_key lhs rhs KEY_RIGHT st =
     (key_right (maxlen lhs) (maxlen rhs) (lastwidth st div 2 + paneshmt st) st, True)"
  by (simp_all add: showdiff_key_def KEY_defs)

lemma scroll_simps:
  "scroll st ''left'' = (\<not> singlescroll st \<or> leftscroll st)"
  "scroll st ''right'' = (\<not> singlescroll st \<or> \<not> leftscroll st)"
  by (simp_all add: scroll_def)

lemma showdiff_loop_state:
  "fst (showdiff_loop lhs rhs st ((ch, h, w) # evs)) =
     (if ch \<in> set [27, 81, 113] then st
      else if snd (showdiff_key lhs rhs ch st)
        then fst (showdiff_loop lhs rhs
                    ((fst (showdiff_key lhs rhs ch st))\<lparr>lastheight := h, lastwidth := w\<rparr>) evs)
        else fst (showdiff_loop lhs rhs (fst (showdiff_key lhs rhs ch st)) evs))"
proof -
  obtain st' repaint where k: "showdiff_key lhs rhs ch st = (st', repaint)"
    by (cases "showdiff_key lhs rhs ch st") auto
  obtain frame where d: "drawsplitpane h w lhs (lpos st') rhs (rpos st') (highlight st') (paneshmt st') 2
      = (frame, h, w)"
    using snd_drawsplitpane [of h w lhs "lpos st'" rhs "rpos st'" "highlight st'" "paneshmt st'" 2]
    by (cases "drawsplitpane h w lhs (lpos st') rhs (rpos st') (highlight st') (paneshmt st') 2") auto
  show ?thesis
    by (simp add: k d split: prod.splits)
qed

lemma preprocess_single: "preprocess [''a''] = [''a'']" "preprocess [''b''] = [''b'']"
  by (simp_all add: preprocess_def strip_def lstrip_def rstrip_def isspace_simps expand_tabs_def)

lemma not_quit: "KEY_HOME \<notin> set [27, 81, 113]" "KEY_UP \<notin> set [27, 81, 113]"
  "KEY_PPAGE \<notin> set [27, 81, 113]"
  by (simp_all add: KEY_defs)

text \<open>
  Claim C2 fails on the code.  A session starts at home, with both row offsets at \<open>-1\<close>.
  The key Up then takes both row offsets to \<open>-2\<close>: \<^verbatim>\<open>lpos[0] -= 1\<close> has no lower bound.
  The key PageUp from the same state keeps them at \<open>-1\<close>, by its test
  \<^verbatim>\<open>if lpos[0] < 0: lpos[0] = -1\<close>.
\<close>

theorem up_at_top_leaves_range:
  "lpos (fst (showdiff [''a''] [''b''] (24, 80) (24, 80) [])) = (- 1, 0) \<and>
   rpos (fst (showdiff [''a''] [''b''] (24, 80) (24, 80) [])) = (- 1, 0) \<and>
   lpos (fst (showdiff [''a''] [''b''] (24, 80) (24, 80) [(KEY_UP, 24, 80)])) = (- 2, 0) \<and>
   rpos (fst (showdiff [''a''] [''b''] (24, 80) (24, 80) [(KEY_UP, 24, 80)])) = (- 2, 0) \<and>
   lpos (fst (showdiff [''a''] [''b''] (24, 80) (24, 80) [(KEY_PPAGE, 24, 80)])) = (- 1, 0) \<and>
   rpos (fst (showdiff [''a''] [''b''] (24, 80) (24, 80) [(KEY_PPAGE, 24, 80)])) = (- 1, 0)"
  unfolding showdiff_def preprocess_single showdiff_loop_state
  by (simp add: not_quit showdiff_key_directional key_home_def key_up_def key_ppage_def
      page_up_row_def scroll_simps del: set_simps)


lemma showdiff_key_other:
  assumes "\<not> directional ch"
  shows "lpos (fst (showdiff_key lhs rhs ch st)) = lpos st \<and>
         rpos (fst (showdiff_key lhs rhs ch st)) = rpos st"
proof -
  from assms have "ch \<noteq> KEY_HOME" "ch \<noteq> KEY_END" "ch \<noteq> KEY_PPAGE" "ch \<noteq> KEY_NPAGE"
    "ch \<noteq> KEY_UP" "ch \<noteq> KEY_DOWN" "ch \<noteq> KEY_LEFT" "ch \<noteq> KEY_RIGHT"
    by (simp_all add: directional_def)
  then show ?thesis
    by (simp add: showdiff_key_def Let_def del: set_simps)
qed

text \<open>
  The other keys keep the bound: a row offset of at least \<open>-1\<close> stays so under every key
  but Up, and under PageDown too when the screen has at least four rows.
\<close>

lemma row_floor_kept:
  assumes "- 1 \<le> fst (lpos st)" and "- 1 \<le> fst (rpos st)" and "ch \<noteq> KEY_UP"
    and "ch = KEY_NPAGE \<longrightarrow> 4 \<le> lastheight st"
  shows "- 1 \<le> fst (lpos (fst (showdiff_key lhs rhs ch st))) \<and>
         - 1 \<le> fst (rpos (fst (showdiff_key lhs rhs ch st)))"
proof (cases "directional ch")
  case False
  then show ?thesis using assms(1,2) by (simp add: showdiff_key_other)
next
  case True
  then have keys: "ch = KEY_HOME \<or> ch = KEY_END \<or> ch = KEY_PPAGE \<or> ch = KEY_NPAGE \<or>
      ch = KEY_UP \<or> ch = KEY_DOWN \<or> ch = KEY_LEFT \<or> ch = KEY_RIGHT"
    by (simp add: directional_def)
  have home: "- 1 \<le> fst (lpos (key_home st)) \<and> - 1 \<le> fst (rpos (key_home st))"
    using assms(1,2) by (simp add: key_home_def Let_def)
  have "end": "- 1 \<le> fst (lpos (key_end nl nr st)) \<and> - 1 \<le> fst (rpos (key_end nl nr st))" for nl nr
    using assms(1,2) by (simp add: key_end_def Let_def)
  have ppage: "- 1 \<le> fst (lpos (key_ppage st)) \<and> - 1 \<le> fst (rpos (key_ppage st))"
    using assms(1,2) by (simp add: key_ppage_def page_up_row_def Let_def)
  have npage: "4 \<le> lastheight st \<Longrightarrow>
      - 1 \<le> fst (lpos (key_npage nl nr st)) \<and> - 1 \<le> fst (rpos (key_npage nl nr st))" for nl nr
    using assms(1,2) by (simp add: key_npage_def page_down_row_def Let_def)
  have down: "- 1 \<le> fst (lpos (key_down st)) \<and> - 1 \<le> fst (rpos (key_down st))"
    using assms(1,2) by (simp add: key_down_def Let_def)
  have left: "- 1 \<le> fst (lpos (key_left st)) \<and> - 1 \<le> fst (rpos (key_left st))"
    using assms(1,2) by (simp add: key_left_def Let_def)
  have right: "- 1 \<le> fst (lpos (key_right lw rw m st)) \<and> - 1 \<le> fst (rpos (key_right lw rw m st))"
    for lw rw m
    using assms(1,2) by (simp add: key_right_def Let_def)
  from keys show ?thesis
  proof (elim disjE)
    assume "ch = KEY_HOME" then show ?thesis using home by (simp add: showdiff_key_directional)
  next
    assume "ch = KEY_END" then show ?thesis using "end" by (simp add: showdiff_key_directional)
  next
    assume "ch = KEY_PPAGE" then show ?thesis using ppage by (simp add: showdiff_key_directional)
  next
    assume "ch = KEY_NPAGE" then show ?thesis
      using npage assms(4) by (simp add: showdiff_key_directional)
  next
    assume "ch = KEY_UP" then show ?thesis using assms(3) by simp
  next
    assume "ch = KEY_DOWN" then show ?thesis using down by (simp add: showdiff_key_directional)
  next
    assume "ch = KEY_LEFT" then show ?thesis using left by (simp add: showdiff_key_directional)
  next
    assume "ch = KEY_RIGHT" then show ?thesis using right by (simp add: showdiff_key_directional)
  qed
qed

lemma row_floor_kept_example:
  "- 1 \<le> fst (lpos (fst (showdiff_key [] [] KEY_DOWN
      \<lparr>lpos = (- 1, 0), rpos = (- 1, 0), lastheight = 24, lastwidth = 80, singlescroll = False,
       leftscroll = True, highlight = True, paneshmt = 0\<rparr>)))"
  using row_floor_kept [where ch = KEY_DOWN and lhs = "[]" and rhs = "[]" and st =
      "\<lparr>lpos = (- 1, 0), rpos = (- 1, 0), lastheight = 24, lastwidth = 80, singlescroll = False,
       leftscroll = True, highlight = True, paneshmt = 0\<rparr>"]
  by (simp add: KEY_defs)

section \<open>Independent and locked scrolling\<close>

lemma left_active:
  assumes "singlescroll st" and "leftscroll st"
  shows "rpos (key_home st) = rpos st"
    "lpos (key_home st) = lpos (key_home (st\<lparr>singlescroll := False\<rparr>))"
    "rpos (key_end nl nr st) = rpos st"
    "lpos (key_end nl nr st) = lpos (key_end nl nr (st\<lparr>singlescroll := False\<rparr>))"
    "rpos (key_ppage st) = rpos st"
    "lpos (key_ppage st) = lpos (key_ppage (st\<lparr>singlescroll := False\<rparr>))"
    "rpos (key_npage nl nr st) = rpos st"
    "lpos (key_npage nl nr st) = lpos (key_npage nl nr (st\<lparr>singlescroll := False\<rparr>))"
    "rpos (key_up st) = rpos st"
    "lpos (key_up st) = lpos (key_up (st\<lparr>singlescroll := False\<rparr>))"
    "rpos (key_down st) = rpos st"
    "lpos (key_down st) = lpos (key_down (st\<lparr>singlescroll := False\<rparr>))"
    "rpos (key_left st) = rpos st"
    "lpos (key_left st) = lpos (key_left (st\<lparr>singlescroll := False\<rparr>))"
    "rpos (key_right lw rw m st) = rpos st"
    "lpos (key_right lw rw m st) = lpos (key_right lw rw m (st\<lparr>singlescroll := False\<rparr>))"
  using assms by (simp_all add: key_defs scroll_simps Let_def)

lemma right_active:
  assumes "singlescroll st" and "\<not> leftscroll st"
  shows "lpos (key_home st) = lpos st"
    "rpos (key_home st) = rpos (key_home (st\<lparr>singlescroll := False\<rparr>))"
    "lpos (key_end nl nr st) = lpos st"
    "rpos (key_end nl nr st) = rpos (key_end nl nr (st\<lparr>singlescroll := False\<rparr>))"
    "lpos (key_ppage st) = lpos st"
    "rpos (key_ppage st) = rpos (key_ppage (st\<lparr>singlescroll := False\<rparr>))"
    "lpos (key_npage nl nr st) = lpos st"
    "rpos (key_npage nl nr st) = rpos (key_npage nl nr (st\<lparr>singlescroll := False\<rparr>))"
    "lpos (key_up st) = lpos st"
    "rpos (key_up st) = rpos (key_up (st\<lparr>singlescroll := False\<rparr>))"
    "lpos (key_down st) = lpos st"
    "rpos (key_down st) = rpos (key_down (st\<lparr>singlescroll := False\<rparr>))"
    "lpos (key_left st) = lpos st"
    "rpos (key_left st) = rpos (key_left (st\<lparr>singlescroll := False\<rparr>))"
    "lpos (key_right lw rw m st) = lpos st"
    "rpos (key_right lw rw m st) = rpos (key_right lw rw m (st\<lparr>singlescroll := False\<rparr>))"
  using assms by (simp_all add: key_defs scroll_simps Let_def)

text \<open>
  Claim C10.  In independent-scroll mode exactly one pane is active, the one the side
  toggle names.  A directional key leaves both offsets of the other pane as they were,
  and gives the active pane the offsets the same key gives it in locked-scroll mode.  In
  locked-scroll mode both panes are active.
\<close>

theorem independent_scroll_frame:
  assumes "directional ch"
  shows "(singlescroll st \<and> leftscroll st \<longrightarrow>
            rpos (fst (showdiff_key lhs rhs ch st)) = rpos st \<and>
            lpos (fst (showdiff_key lhs rhs ch st)) =
              lpos (fst (showdiff_key lhs rhs ch (st\<lparr>singlescroll := False\<rparr>))))
       \<and> (singlescroll st \<and> \<not> leftscroll st \<longrightarrow>
            lpos (fst (showdiff_key lhs rhs ch st)) = lpos st \<and>
            rpos (fst (showdiff_key lhs rhs ch st)) =
              rpos (fst (showdiff_key lhs rhs ch (st\<lparr>singlescroll := False\<rparr>))))
       \<and> (singlescroll st \<longrightarrow> scroll st ''left'' \<noteq> scroll st ''right'')
       \<and> (\<not> singlescroll st \<longrightarrow> scroll st ''left'' \<and> scroll st ''right'')"
proof -
  from assms have keys: "ch = KEY_HOME \<or> ch = KEY_END \<or> ch = KEY_PPAGE \<or> ch = KEY_NPAGE \<or>
      ch = KEY_UP \<or> ch = KEY_DOWN \<or> ch = KEY_LEFT \<or> ch = KEY_RIGHT"
    by (simp add: directional_def)
  have l: "singlescroll st \<and> leftscroll st \<longrightarrow>
            rpos (fst (showdiff_key lhs rhs ch st)) = rpos st \<and>
            lpos (fst (showdiff_key lhs rhs ch st)) =
              lpos (fst (showdiff_key lhs rhs ch (st\<lparr>singlescroll := False\<rparr>)))"
    using keys by (elim disjE) (simp_all add: showdiff_key_directional left_active)
  have r: "singlescroll st \<and> \<not> leftscroll st \<longrightarrow>
            lpos (fst (showdiff_key lhs rhs ch st)) = lpos st \<and>
            rpos (fst (showdiff_key lhs rhs ch st)) =
              rpos (fst (showdiff_key lhs rhs ch (st\<lparr>singlescroll := False\<rparr>)))"
    using keys by (elim disjE) (simp_all add: showdiff_key_directional right_active)
  have s: "(singlescroll st \<longrightarrow> scroll st ''left'' \<noteq> scroll st ''right'')
       \<and> (\<not> singlescroll st \<longrightarrow> scroll st ''left'' \<and> scroll st ''right'')"
    by (auto simp: scroll_simps)
  from l r s show ?thesis by blast
qed

theorem independent_scroll_frame_witness:
  "rpos (fst (showdiff_key [] [] KEY_DOWN
           \<lparr>lpos = (3, 0), rpos = (7, 2), lastheight = 24, lastwidth = 80, singlescroll = True,
            leftscroll = True, highlight = True, paneshmt = 0\<rparr>)) = (7, 2)
   \<and> lpos (fst (showdiff_key [] [] KEY_DOWN
           \<lparr>lpos = (3, 0), rpos = (7, 2), lastheight = 24, lastwidth = 80, singlescroll = True,
            leftscroll = True, highlight = True, paneshmt = 0\<rparr>)) = (4, 0)
   \<and> lpos (fst (showdiff_key [] [] KEY_DOWN
           \<lparr>lpos = (3, 0), rpos = (7, 2), lastheight = 24, lastwidth = 80, singlescroll = True,
            leftscroll = False, highlight = True, paneshmt = 0\<rparr>)) = (3, 0)
   \<and> rpos (fst (showdiff_key [] [] KEY_DOWN
           \<lparr>lpos = (3, 0), rpos = (7, 2), lastheight = 24, lastwidth = 80, singlescroll = True,
            leftscroll = False, highlight = True, paneshmt = 0\<rparr>)) = (8, 2)"
proof -
  have d: "directional KEY_DOWN" by (simp add: directional_def)
  show ?thesis
    using independent_scroll_frame [OF d, where lhs = "[]" and rhs = "[]" and st =
        "\<lparr>lpos = (3, 0), rpos = (7, 2), lastheight = 24, lastwidth = 80, singlescroll = True,
          leftscroll = True, highlight = True, paneshmt = 0\<rparr>"]
      independent_scroll_frame [OF d, where lhs = "[]" and rhs = "[]" and st =
        "\<lparr>lpos = (3, 0), rpos = (7, 2), lastheight = 24, lastwidth = 80, singlescroll = True,
          leftscroll = False, highlight = True, paneshmt = 0\<rparr>"]
    by (simp add: showdiff_key_directional key_down_def scroll_simps)
qed

section \<open>The menu loop without an error message\<close>



lemma menu_top_ge_2: "2 \<le> menu_top bdy"
proof -
  have "0 \<le> sum_list (map (\<lambda>sec. int (length sec) + 1) bdy)"
    by (rule sum_list_nonneg) auto
  then show ?thesis by (simp add: menu_top_def)
qed




















text \<open>No body gives four rows of choices on a surface of height 5.\<close>

lemma at_most_three_rows_at_height_5: "5 - menu_top bdy \<le> 3"
  using menu_top_ge_2 [of bdy] by simp







section \<open>The empty choice list\<close>

lemma py_index_Nil: "py_index [] i = Inl IndexError"
  by (simp add: py_index_def)

lemma menu_frame_cursor_empty:
  assumes "curs \<noteq> 0"
  shows "menu_frame ttl bdy [] curs mw el h w st = Inl IndexError"
  using assms by (simp add: menu_frame_def py_index_Nil Let_def split: prod.splits)

lemma showmenu_cursor_empty:
  assumes "curs \<noteq> 0"
  shows "showmenu ttl bdy e [] infobox curs t0 h0 (ev # evs) = ([], Raised IndexError)"
  by (cases ev) (simp add: showmenu_def menu_iter_def menu_frame_cursor_empty [OF assms])

text \<open>Without the cursor no frame raises, whatever the choices.\<close>

lemma menu_frame_no_cursor: "\<exists>r. menu_frame ttl bdy chs 0 mw el h w st = Inr r"
  by (simp add: menu_frame_def Let_def split: prod.splits)

lemma showmenu_loop_no_cursor:
  "snd (showmenu_loop ttl bdy chs infobox 0 mw el st evs) \<noteq> Raised x"
proof (induction evs arbitrary: st)
  case Nil
  then show ?case by simp
next
  case (Cons ev evs)
  obtain h w ch where ev: "ev = (h, w, ch)" by (cases ev) auto
  obtain r where "menu_frame ttl bdy chs 0 mw el h w st = Inr r"
    using menu_frame_no_cursor [of ttl bdy chs mw el h w st] by auto
  then obtain fr a st' where f: "menu_frame ttl bdy chs 0 mw el h w st = Inr (fr, a, st')"
    by (cases r) auto
  have IH: "showmenu_loop ttl bdy chs infobox 0 mw el s evs \<noteq> (frs, Raised x)" for s frs
    using Cons.IH [of s] by auto
  show ?case
    using IH by (auto simp: ev menu_iter_def f split: menu_step.splits prod.splits)
qed

lemma showmenu_no_cursor_quit:
  assumes "ch \<in> set [27, 81, 113]"
  shows "snd (showmenu ttl bdy e chs infobox 0 t0 h0 ((h, w, ch) # evs)) = Returned ReturnNoneNone"
proof -
  let ?st0 = "\<lparr>topline = t0, hpos = (if h0 < t0 then t0 else h0), err = e, errorcounter = None\<rparr>"
  obtain r where "menu_frame ttl bdy chs 0 (menu_maxwidth ttl bdy e chs) (menu_errorlen e) h w ?st0 =
      Inr r"
    using menu_frame_no_cursor [of ttl bdy chs "menu_maxwidth ttl bdy e chs" "menu_errorlen e"
        h w ?st0] by blast
  then obtain fr a st' where f: "menu_frame ttl bdy chs 0 (menu_maxwidth ttl bdy e chs)
      (menu_errorlen e) h w ?st0 = Inr (fr, a, st')"
    by (cases r) auto
  have k: "menu_key chs infobox h a ch st' = Return ReturnNoneNone"
    using assms by (simp add: menu_key_def)
  show ?thesis
    by (simp add: showmenu_def menu_iter_def f k del: set_simps)
qed

text \<open>
  Claim C9 fails on the code.  With an empty choice list and \<open>curs \<noteq> 0\<close> the first
  frame reads \<^verbatim>\<open>choices[hpos]\<close> to place the cursor and raises IndexError before any
  key is read, in the interactive mode and in the info box alike; no frame is shown.  With
  \<open>curs = 0\<close> the same call shows the title and returns on the quit key.
\<close>

theorem empty_choices_with_cursor:
  "showmenu ''Menu'' [] NoErr [] False 1 0 0 [(24, 80, 27)] = ([], Raised IndexError) \<and>
   showmenu ''Menu'' [] NoErr [] True 2 0 0 [(24, 80, 27)] = ([], Raised IndexError) \<and>
   snd (showmenu ''Menu'' [] NoErr [] False 0 0 0 [(24, 80, 27)]) = Returned ReturnNoneNone"
proof -
  have q: "(27::int) \<in> set [27, 81, 113]" by simp
  show ?thesis
    using showmenu_no_cursor_quit [OF q, of "''Menu''" "[]" NoErr "[]" False 0 0 24 80 "[]"]
    by (simp add: showmenu_cursor_empty del: set_simps)
qed

section \<open>The transient error message\<close>

lemma count_error_starts:
  "errorcounter st = None \<Longrightarrow> errorcounter (count_error el h ln n st) = Some 5"
  by (simp add: count_error_def Let_def)

lemma count_error_below_selection:
  "topline st \<le> hpos st \<Longrightarrow>
   topline (count_error el h ln n st) \<le> hpos (count_error el h ln n st)"
  by (simp add: count_error_def Let_def split: option.splits)

text \<open>
  When the whole shift fits below the selection, the top line comes back: from the top
  line 3 with the selection 8, the message takes the top line to 5 and its end back to 3.
\<close>

lemma unclamped_shift_is_undone:
  "snd (showmenu ''Menu'' [[]] (ErrStr ''E'') ten_choices False 0 3 8 (replicate 1 (10, 80, 97))) =
     Waiting \<lparr>topline = 5, hpos = 8, err = ErrStr ''E'', errorcounter = Some 5\<rparr>
   \<and> snd (showmenu ''Menu'' [[]] (ErrStr ''E'') ten_choices False 0 3 8 (replicate 7 (10, 80, 97))) =
     Waiting \<lparr>topline = 3, hpos = 8, err = NoErr, errorcounter = Some 0\<rparr>"
  by code_simp

text \<open>
  Claim C3 fails on the code.  The message is shown in the first frame and in the five
  frames after it, and is gone from the seventh.  But the end of the message always
  takes \<open>errorlen + 1\<close> from the top line (down to 0), whatever the message added when it
  appeared.  With the top line 5 and the selection 5 on a surface of height 10 the shift
  is cut back to the selection, so the message adds nothing, and its end leaves the top
  line at 3.  With the top line 3 and the selection 5 on a surface of height 40 the
  choices fit, no shift is made, and the end of the message leaves the top line at 1.
\<close>

theorem error_end_moves_topline:
  "map shows_error
     (fst (showmenu ''Menu'' [[]] (ErrStr ''E'') ten_choices False 0 5 5 (replicate 7 (10, 80, 97)))) =
     [True, True, True, True, True, True, False]
   \<and> snd (showmenu ''Menu'' [[]] (ErrStr ''E'') ten_choices False 0 5 5 (replicate 1 (10, 80, 97))) =
     Waiting \<lparr>topline = 5, hpos = 5, err = ErrStr ''E'', errorcounter = Some 5\<rparr>
   \<and> snd (showmenu ''Menu'' [[]] (ErrStr ''E'') ten_choices False 0 5 5 (replicate 7 (10, 80, 97))) =
     Waiting \<lparr>topline = 3, hpos = 5, err = NoErr, errorcounter = Some 0\<rparr>
   \<and> snd (showmenu ''Menu'' [[]] (ErrStr ''E'') ten_choices False 0 3 5 (replicate 1 (40, 80, 97))) =
     Waiting \<lparr>topline = 3, hpos = 5, err = ErrStr ''E'', errorcounter = Some 5\<rparr>
   \<and> snd (showmenu ''Menu'' [[]] (ErrStr ''E'') ten_choices False 0 3 5 (replicate 7 (40, 80, 97))) =
     Waiting \<lparr>topline = 1, hpos = 5, err = NoErr, errorcounter = Some 0\<rparr>"
  by code_simp

end
